theory Spec2Isabelle
  imports Main
begin

section \<open>The declarative resource interface\<close>

text \<open>
  The repository is one TypeScript program, present in two versions
  (\<^verbatim>\<open>src/main.ts\<close> and \<^verbatim>\<open>src/unnamed/part_000\<close>). It uses three things of the external
  libraries \<^verbatim>\<open>cdktf\<close> and \<^verbatim>\<open>@cdktf/provider-google\<close>:
  \<^item> object construction \<^verbatim>\<open>new C(scope, id, config)\<close>, which registers a construct of
    class \<^verbatim>\<open>C\<close> under the identity \<^verbatim>\<open>id\<close> in \<^verbatim>\<open>scope\<close>, with \<^verbatim>\<open>config\<close> as its mapping
    of property names to values;
  \<^item> attribute access \<^verbatim>\<open>r.name\<close> and \<^verbatim>\<open>r.id\<close> on a constructed object, which stands for
    the attribute of that declared resource (a back-reference);
  \<^item> \<^verbatim>\<open>app.synth()\<close>, which hands the declared constructs over.

  The libraries themselves are not part of the repository. Their interface is modelled
  as an append-only log of events in a \<open>world\<close>: every construction appends one
  \<open>Declared\<close> event, \<^verbatim>\<open>synth\<close> appends one \<open>Synthesized\<close> event. What the libraries
  do with a declaration (checks of their arguments, the output of \<^verbatim>\<open>synth\<close>, the
  engine that applies it) is theirs and is not modelled.
\<close>

datatype val =
    VStr string
  | VBool bool
  | VNum int
  | VRef string string
  | VList "val list"
  | VObj "(string \<times> val) list"

type_synonym props = "(string \<times> val) list"

record construct =
  scope :: "string list"
  cid :: string
  rclass :: string
  config :: props

datatype event = Declared construct | Synthesized "string list"

record world =
  events :: "event list"

definition empty_world :: world where
  "empty_world = \<lparr>events = []\<rparr>"

definition path_of :: "construct \<Rightarrow> string list" where
  "path_of c = scope c @ [cid c]"

text \<open>\<^verbatim>\<open>new C(scope, id, config)\<close>: the new object is returned and registered.\<close>

definition new_construct ::
  "string \<Rightarrow> construct \<Rightarrow> string \<Rightarrow> props \<Rightarrow> world \<Rightarrow> construct \<times> world" where
  "new_construct cls sc i cfg w =
     (let c = \<lparr>scope = path_of sc, cid = i, rclass = cls, config = cfg\<rparr>
      in (c, w\<lparr>events := events w @ [Declared c]\<rparr>))"

text \<open>\<^verbatim>\<open>r.name\<close> and \<^verbatim>\<open>r.id\<close>: a reference to an attribute of the declared resource \<open>r\<close>,
  named by its construct id.\<close>

definition name_of :: "construct \<Rightarrow> val" where
  "name_of r = VRef (cid r) ''name''"

definition id_of :: "construct \<Rightarrow> val" where
  "id_of r = VRef (cid r) ''id''"

text \<open>\<^verbatim>\<open>new App()\<close>: the root construct, with no scope and the empty id.\<close>

definition App :: "world \<Rightarrow> construct \<times> world" where
  "App w =
     (let c = \<lparr>scope = [], cid = [], rclass = ''App'', config = []\<rparr>
      in (c, w\<lparr>events := events w @ [Declared c]\<rparr>))"

text \<open>\<^verbatim>\<open>app.synth()\<close>.\<close>

definition synth :: "construct \<Rightarrow> world \<Rightarrow> world" where
  "synth app w = w\<lparr>events := events w @ [Synthesized (path_of app)]\<rparr>"

text \<open>\<^verbatim>\<open>super(scope, id)\<close> in a class \<open>cls\<close> that extends \<^verbatim>\<open>TerraformStack\<close>: the object
  under construction is registered in \<open>scope\<close>; a stack has no configuration. This is
  the registration of an id the library accepts as it is; the checks the library makes
  of the id first are \<open>TerraformStack_checked\<close>, further down.\<close>

definition TerraformStack :: "string \<Rightarrow> construct \<Rightarrow> string \<Rightarrow> world \<Rightarrow> construct \<times> world" where
  "TerraformStack cls sc i w = new_construct cls sc i [] w"

text \<open>The twelve imported resource classes.\<close>

definition GoogleProvider :: "construct \<Rightarrow> string \<Rightarrow> props \<Rightarrow> world \<Rightarrow> construct \<times> world" where
  "GoogleProvider = new_construct ''GoogleProvider''"

definition ComputeNetwork :: "construct \<Rightarrow> string \<Rightarrow> props \<Rightarrow> world \<Rightarrow> construct \<times> world" where
  "ComputeNetwork = new_construct ''ComputeNetwork''"

definition ComputeSubnetwork :: "construct \<Rightarrow> string \<Rightarrow> props \<Rightarrow> world \<Rightarrow> construct \<times> world" where
  "ComputeSubnetwork = new_construct ''ComputeSubnetwork''"

definition CloudRunV2Service :: "construct \<Rightarrow> string \<Rightarrow> props \<Rightarrow> world \<Rightarrow> construct \<times> world" where
  "CloudRunV2Service = new_construct ''CloudRunV2Service''"

definition CloudRunV2ServiceIamMember ::
  "construct \<Rightarrow> string \<Rightarrow> props \<Rightarrow> world \<Rightarrow> construct \<times> world" where
  "CloudRunV2ServiceIamMember = new_construct ''CloudRunV2ServiceIamMember''"

definition ComputeAddress :: "construct \<Rightarrow> string \<Rightarrow> props \<Rightarrow> world \<Rightarrow> construct \<times> world" where
  "ComputeAddress = new_construct ''ComputeAddress''"

definition ComputeRegionNetworkEndpointGroup ::
  "construct \<Rightarrow> string \<Rightarrow> props \<Rightarrow> world \<Rightarrow> construct \<times> world" where
  "ComputeRegionNetworkEndpointGroup = new_construct ''ComputeRegionNetworkEndpointGroup''"

definition ComputeRegionBackendService ::
  "construct \<Rightarrow> string \<Rightarrow> props \<Rightarrow> world \<Rightarrow> construct \<times> world" where
  "ComputeRegionBackendService = new_construct ''ComputeRegionBackendService''"

definition ComputeRegionUrlMap :: "construct \<Rightarrow> string \<Rightarrow> props \<Rightarrow> world \<Rightarrow> construct \<times> world" where
  "ComputeRegionUrlMap = new_construct ''ComputeRegionUrlMap''"

definition ComputeRegionTargetHttpProxy ::
  "construct \<Rightarrow> string \<Rightarrow> props \<Rightarrow> world \<Rightarrow> construct \<times> world" where
  "ComputeRegionTargetHttpProxy = new_construct ''ComputeRegionTargetHttpProxy''"

definition ComputeForwardingRule :: "construct \<Rightarrow> string \<Rightarrow> props \<Rightarrow> world \<Rightarrow> construct \<times> world" where
  "ComputeForwardingRule = new_construct ''ComputeForwardingRule''"

definition ComputeServiceAttachment ::
  "construct \<Rightarrow> string \<Rightarrow> props \<Rightarrow> world \<Rightarrow> construct \<times> world" where
  "ComputeServiceAttachment = new_construct ''ComputeServiceAttachment''"


section \<open>The program of \<^verbatim>\<open>src/main.ts\<close>\<close>

definition region :: string where
  "region = ''europe-west2''"

text \<open>The constructor of \<^verbatim>\<open>class StackA extends TerraformStack\<close>, statement by statement.
  An object literal is a \<open>props\<close> list in the order written; the shorthand \<^verbatim>\<open>region,\<close> is
  the entry \<^verbatim>\<open>region: region\<close>. A result that the source drops is bound to \<open>_\<close>.\<close>

definition StackA :: "construct \<Rightarrow> string \<Rightarrow> world \<Rightarrow> construct \<times> world" where
  "StackA sc id' w0 =
    (let (this, w) = TerraformStack ''StackA'' sc id' w0;
         (_, w) = GoogleProvider this ''google''
            [(''project'', VStr ''project-a''),
             (''region'', VStr region)] w;
         (network, w) = ComputeNetwork this ''network-a''
            [(''name'', VStr ''network-a''),
             (''autoCreateSubnetworks'', VBool False)] w;
         (subnetApp, w) = ComputeSubnetwork this ''app-subnet''
            [(''name'', VStr ''app-subnet''),
             (''network'', name_of network),
             (''region'', VStr region),
             (''ipCidrRange'', VStr ''10.0.0.0/24''),
             (''purpose'', VStr ''PRIVATE'')] w;
         (_, w) = ComputeSubnetwork this ''proxy-subnet''
            [(''name'', VStr ''proxy-subnet''),
             (''network'', name_of network),
             (''region'', VStr region),
             (''ipCidrRange'', VStr ''10.0.1.0/24''),
             (''purpose'', VStr ''REGIONAL_MANAGED_PROXY''),
             (''role'', VStr ''ACTIVE'')] w;
         (subnetPSC, w) = ComputeSubnetwork this ''psc-subnet''
            [(''name'', VStr ''psc-subnet''),
             (''network'', name_of network),
             (''region'', VStr region),
             (''ipCidrRange'', VStr ''10.0.2.0/24''),
             (''purpose'', VStr ''PRIVATE_SERVICE_CONNECT'')] w;
         (service, w) = CloudRunV2Service this ''service''
            [(''name'', VStr ''service''),
             (''location'', VStr region),
             (''deletionProtection'', VBool False),
             (''ingress'', VStr ''INGRESS_TRAFFIC_INTERNAL_ONLY''),
             (''template'', VObj [(''containers'',
                VList [VObj [(''image'', VStr ''us-docker.pkg.dev/cloudrun/container/hello'')]])])] w;
         (_, w) = CloudRunV2ServiceIamMember this ''invoker''
            [(''name'', name_of service),
             (''location'', VStr region),
             (''role'', VStr ''roles/run.invoker''),
             (''member'', VStr ''allUsers'')] w;
         (loadbalancerAddress, w) = ComputeAddress this ''loadbalancer-address''
            [(''name'', VStr ''loadbalancer-address''),
             (''region'', VStr region),
             (''subnetwork'', name_of subnetApp),
             (''addressType'', VStr ''INTERNAL''),
             (''address'', VStr ''10.0.0.10''),
             (''ipVersion'', VStr ''IPV4'')] w;
         (networkEndpointGroup, w) = ComputeRegionNetworkEndpointGroup this ''network-endpoint-group''
            [(''name'', VStr ''network-endpoint-group''),
             (''region'', VStr region),
             (''networkEndpointType'', VStr ''SERVERLESS''),
             (''cloudRun'', VObj [(''service'', name_of service)])] w;
         (backendService, w) = ComputeRegionBackendService this ''backend-service''
            [(''name'', VStr ''backend-service''),
             (''loadBalancingScheme'', VStr ''INTERNAL_MANAGED''),
             (''region'', VStr region),
             (''protocol'', VStr ''HTTPS''),
             (''backend'', VList [VObj [(''group'', id_of networkEndpointGroup)]])] w;
         (loadbalancer, w) = ComputeRegionUrlMap this ''loadbalancer''
            [(''name'', VStr ''loadbalancer''),
             (''region'', VStr region),
             (''defaultService'', id_of backendService)] w;
         (httpProxy, w) = ComputeRegionTargetHttpProxy this ''http-proxy''
            [(''name'', VStr ''http-proxy''),
             (''region'', VStr region),
             (''urlMap'', id_of loadbalancer)] w;
         (forwardingRule, w) = ComputeForwardingRule this ''forwarding-rule''
            [(''name'', VStr ''forwarding-rule''),
             (''region'', VStr region),
             (''ipProtocol'', VStr ''TCP''),
             (''loadBalancingScheme'', VStr ''INTERNAL_MANAGED''),
             (''portRange'', VStr ''80''),
             (''target'', id_of httpProxy),
             (''network'', name_of network),
             (''subnetwork'', name_of subnetApp),
             (''ipAddress'', id_of loadbalancerAddress),
             (''networkTier'', VStr ''PREMIUM'')] w;
         (serviceAttachment, w) = ComputeServiceAttachment this ''psc-service-attachment''
            [(''name'', VStr ''psc-service-attachment''),
             (''region'', VStr region),
             (''targetService'', id_of forwardingRule),
             (''connectionPreference'', VStr ''ACCEPT_MANUAL''),
             (''natSubnets'', VList [id_of subnetPSC]),
             (''enableProxyProtocol'', VBool False),
             (''consumerAcceptLists'', VList [VObj
                [(''networkUrl'', VStr
                   ''https://www.googleapis.com/compute/v1/projects/PROJECT-B/global/networks/default''),
                 (''connectionLimit'', VNum 10)]])] w;
         (consumerIP, w) = ComputeAddress this ''consumer-ip''
            [(''name'', VStr ''consumer-ip''),
             (''region'', VStr region),
             (''subnetwork'', VStr ''default''),
             (''addressType'', VStr ''INTERNAL''),
             (''address'', VStr ''10.154.0.5''),
             (''ipVersion'', VStr ''IPV4''),
             (''project'', VStr ''PROJECT-B'')] w;
         (_, w) = ComputeForwardingRule this ''forwarding-rule-psc''
            [(''name'', VStr ''psc-forwarding-rule''),
             (''region'', VStr region),
             (''network'', VStr ''default''),
             (''subnetwork'', VStr ''default''),
             (''target'', id_of serviceAttachment),
             (''project'', VStr ''PROJECT-B''),
             (''loadBalancingScheme'', VStr ''''),
             (''ipAddress'', id_of consumerIP)] w
     in (this, w))"

text \<open>The three top-level statements after the class:
  \<^verbatim>\<open>const app = new App(); new StackA(app, "lab"); app.synth();\<close>\<close>

definition main :: world where
  "main =
    (let (app, w) = App empty_world;
         (_, w) = StackA app ''lab'' w;
         w = synth app w
     in w)"


section \<open>The program of \<^verbatim>\<open>src/unnamed/part_000\<close>\<close>

text \<open>The second version of the file: the same constant \<^verbatim>\<open>region\<close>, and a class
  \<^verbatim>\<open>StackA\<close> of its own, named \<open>StackA_part_000\<close> here.\<close>

definition StackA_part_000 :: "construct \<Rightarrow> string \<Rightarrow> world \<Rightarrow> construct \<times> world" where
  "StackA_part_000 sc id' w0 =
    (let (this, w) = TerraformStack ''StackA'' sc id' w0;
         (_, w) = GoogleProvider this ''google''
            [(''project'', VStr ''PROJECT-A''),
             (''region'', VStr region)] w;
         (network, w) = ComputeNetwork this ''network-a''
            [(''name'', VStr ''network-a''),
             (''autoCreateSubnetworks'', VBool False)] w;
         (subnetApp, w) = ComputeSubnetwork this ''subnet-app''
            [(''name'', VStr ''subnet-app''),
             (''network'', name_of network),
             (''region'', VStr region),
             (''ipCidrRange'', VStr ''10.0.0.0/24''),
             (''purpose'', VStr ''PRIVATE'')] w;
         (_, w) = ComputeSubnetwork this ''subnet-proxy''
            [(''name'', VStr ''subnet-proxy''),
             (''network'', name_of network),
             (''region'', VStr region),
             (''ipCidrRange'', VStr ''10.0.1.0/24''),
             (''purpose'', VStr ''REGIONAL_MANAGED_PROXY''),
             (''role'', VStr ''ACTIVE'')] w;
         (subnetPSC, w) = ComputeSubnetwork this ''subnet-psc''
            [(''name'', VStr ''subnet-psc''),
             (''network'', name_of network),
             (''region'', VStr region),
             (''ipCidrRange'', VStr ''10.0.2.0/24''),
             (''purpose'', VStr ''PRIVATE_SERVICE_CONNECT'')] w;
         (service, w) = CloudRunV2Service this ''service''
            [(''name'', VStr ''service''),
             (''location'', VStr region),
             (''deletionProtection'', VBool False),
             (''ingress'', VStr ''INGRESS_TRAFFIC_INTERNAL_ONLY''),
             (''template'', VObj [(''containers'',
                VList [VObj [(''image'', VStr ''us-docker.pkg.dev/cloudrun/container/hello'')]])])] w;
         (_, w) = CloudRunV2ServiceIamMember this ''invoker''
            [(''name'', name_of service),
             (''location'', VStr region),
             (''role'', VStr ''roles/run.invoker''),
             (''member'', VStr ''allUsers'')] w;
         (_, w) = ComputeAddress this ''loadbalancer-address''
            [(''name'', VStr ''loadbalancer-address''),
             (''region'', VStr region),
             (''subnetwork'', name_of subnetApp),
             (''addressType'', VStr ''INTERNAL''),
             (''address'', VStr ''10.0.0.10''),
             (''ipVersion'', VStr ''IPV4'')] w;
         (networkEndpointGroup, w) = ComputeRegionNetworkEndpointGroup this ''network-endpoint-group''
            [(''name'', VStr ''network-endpoint-group''),
             (''region'', VStr region),
             (''networkEndpointType'', VStr ''SERVERLESS''),
             (''cloudRun'', VObj [(''service'', name_of service)])] w;
         (backendService, w) = ComputeRegionBackendService this ''backend-service''
            [(''name'', VStr ''backend-service''),
             (''loadBalancingScheme'', VStr ''INTERNAL_MANAGED''),
             (''region'', VStr region),
             (''protocol'', VStr ''HTTPS''),
             (''backend'', VList [VObj [(''group'', id_of networkEndpointGroup)]])] w;
         (urlMap, w) = ComputeRegionUrlMap this ''url-map''
            [(''name'', VStr ''url-map''),
             (''region'', VStr region),
             (''defaultService'', id_of backendService)] w;
         (httpProxy, w) = ComputeRegionTargetHttpProxy this ''http-proxy''
            [(''name'', VStr ''http-proxy''),
             (''region'', VStr region),
             (''urlMap'', id_of urlMap)] w;
         (forwardingRule, w) = ComputeForwardingRule this ''forwarding-rule''
            [(''name'', VStr ''forwarding-rule''),
             (''region'', VStr region),
             (''ipProtocol'', VStr ''TCP''),
             (''loadBalancingScheme'', VStr ''INTERNAL_MANAGED''),
             (''portRange'', VStr ''80''),
             (''target'', id_of httpProxy),
             (''network'', name_of network),
             (''subnetwork'', name_of subnetApp),
             (''networkTier'', VStr ''PREMIUM'')] w;
         (computeService, w) = ComputeServiceAttachment this ''psc-service-attachment''
            [(''name'', VStr ''psc-service-attachment''),
             (''region'', VStr region),
             (''targetService'', id_of forwardingRule),
             (''connectionPreference'', VStr ''ACCEPT_MANUAL''),
             (''natSubnets'', VList [id_of subnetPSC]),
             (''enableProxyProtocol'', VBool False),
             (''consumerAcceptLists'', VList [VObj
                [(''networkUrl'', VStr
                   ''https://www.googleapis.com/compute/v1/projects/PROJECT-B/global/networks/default''),
                 (''connectionLimit'', VNum 10)]])] w;
         (consumerIP, w) = ComputeAddress this ''consumer-ip''
            [(''name'', VStr ''consumer-ip''),
             (''region'', VStr region),
             (''subnetwork'', VStr ''default''),
             (''addressType'', VStr ''INTERNAL''),
             (''address'', VStr ''10.154.0.5''),
             (''ipVersion'', VStr ''IPV4''),
             (''project'', VStr ''PROJECT-B'')] w;
         (_, w) = ComputeForwardingRule this ''forwarding-rule-psc''
            [(''name'', VStr ''psc-forwarding-rule''),
             (''region'', VStr region),
             (''network'', VStr ''default''),
             (''subnetwork'', VStr ''default''),
             (''target'', id_of computeService),
             (''project'', VStr ''PROJECT-B''),
             (''loadBalancingScheme'', VStr ''''),
             (''ipAddress'', id_of consumerIP)] w
     in (this, w))"

text \<open>The three top-level statements after the class:
  \<^verbatim>\<open>const app = new App(); new StackA(app, "lab"); app.synth();\<close>\<close>

definition main_part_000 :: world where
  "main_part_000 =
    (let (app, w) = App empty_world;
         (_, w) = StackA_part_000 app ''lab'' w;
         w = synth app w
     in w)"

section \<open>Reading the declared resource graph\<close>

text \<open>The constructs of the \<open>Declared\<close> events of a log, in order.\<close>

primrec declared :: "event list \<Rightarrow> construct list" where
  "declared [] = []"
| "declared (e # es) =
     (case e of Declared c \<Rightarrow> c # declared es | Synthesized p \<Rightarrow> declared es)"

text \<open>What a computation appends to the log of the world it starts in.\<close>

definition trace_of :: "(world \<Rightarrow> 'a \<times> world) \<Rightarrow> world \<Rightarrow> event list" where
  "trace_of f w = drop (length (events w)) (events (snd (f w)))"

text \<open>The resource graph of a stack constructor \<open>f\<close>: the constructs it declares directly
  in the stack it returns.\<close>

definition stack_resources :: "(world \<Rightarrow> construct \<times> world) \<Rightarrow> world \<Rightarrow> construct list" where
  "stack_resources f w =
     filter (\<lambda>c. scope c = path_of (fst (f w))) (declared (trace_of f w))"


definition by_class :: "string \<Rightarrow> construct list \<Rightarrow> construct list" where
  "by_class cls g = filter (\<lambda>c. rclass c = cls) g"

definition property :: "construct \<Rightarrow> string \<Rightarrow> val option" where
  "property c k = map_of (config c) k"

definition resource :: "construct list \<Rightarrow> string \<Rightarrow> construct option" where
  "resource g i = find (\<lambda>c. cid c = i) g"

definition class_of :: "construct list \<Rightarrow> string \<Rightarrow> string option" where
  "class_of g i = map_option rclass (resource g i)"

definition lookup :: "construct list \<Rightarrow> string \<Rightarrow> string \<Rightarrow> val option" where
  "lookup g i k = (case resource g i of None \<Rightarrow> None | Some c \<Rightarrow> property c k)"

text \<open>The back-references inside a value, as pairs of construct id and attribute; a list
  or an object is searched through.\<close>

primrec refs :: "val \<Rightarrow> (string \<times> string) list" where
  "refs (VStr s) = []"
| "refs (VBool b) = []"
| "refs (VNum n) = []"
| "refs (VRef c a) = [(c, a)]"
| "refs (VList vs) = concat (map refs vs)"
| "refs (VObj fs) = concat (map snd (map (map_prod (\<lambda>k. k) refs) fs))"

definition config_refs :: "construct \<Rightarrow> (string \<times> string) list" where
  "config_refs c = concat (map (\<lambda>kv. refs (snd kv)) (config c))"

definition ref_targets :: "construct \<Rightarrow> string list" where
  "ref_targets c = map fst (config_refs c)"

text \<open>All back-references of a graph, in order: the resource that holds the reference,
  the resource referred to, and the attribute read.\<close>

definition back_references :: "construct list \<Rightarrow> (string \<times> string \<times> string) list" where
  "back_references g = concat (map (\<lambda>c. map (\<lambda>r. (cid c, r)) (config_refs c)) g)"

text \<open>\<open>points_to g a b\<close>: the resource declared as \<open>a\<close> holds a back-reference to the
  resource declared as \<open>b\<close>, and both are declared in \<open>g\<close>. A reference chain is a list of
  construct ids in which each one points to the next.\<close>

definition points_to :: "construct list \<Rightarrow> string \<Rightarrow> string \<Rightarrow> bool" where
  "points_to g a b =
     (case resource g a of
        None \<Rightarrow> False
      | Some c \<Rightarrow> b \<in> set (ref_targets c) \<and> resource g b \<noteq> None)"

fun ref_chain :: "construct list \<Rightarrow> string list \<Rightarrow> bool" where
  "ref_chain g (a # b # cs) = (points_to g a b \<and> ref_chain g (b # cs))"
| "ref_chain g cs = True"

text \<open>Every back-reference of every resource of \<open>g\<close> names a resource of \<open>g\<close>.\<close>

definition refs_resolve :: "construct list \<Rightarrow> bool" where
  "refs_resolve g =
     list_all (\<lambda>c. list_all (\<lambda>t. t \<in> set (map cid g)) (ref_targets c)) g"

text \<open>The same, in declaration order: walking the resources in the order declared, each
  back-reference names a resource declared before (so never the resource itself), and
  the attribute it reads is \<^verbatim>\<open>id\<close> or \<^verbatim>\<open>name\<close>.\<close>

definition backref_ok :: "string list \<Rightarrow> string \<times> string \<Rightarrow> bool" where
  "backref_ok seen r = (fst r \<in> set seen \<and> (snd r = ''id'' \<or> snd r = ''name''))"

fun well_declared :: "string list \<Rightarrow> construct list \<Rightarrow> bool" where
  "well_declared seen [] = True"
| "well_declared seen (c # cs) =
     (list_all (backref_ok seen) (config_refs c) \<and> well_declared (seen @ [cid c]) cs)"

text \<open>The classes the program imports from the provider package (lines 3 to 14 of both
  files), the provider itself first.\<close>

definition imported_classes :: "string list" where
  "imported_classes =
     [''GoogleProvider'', ''ComputeNetwork'', ''ComputeSubnetwork'', ''CloudRunV2Service'',
      ''CloudRunV2ServiceIamMember'', ''ComputeAddress'', ''ComputeRegionNetworkEndpointGroup'',
      ''ComputeRegionBackendService'', ''ComputeForwardingRule'',
      ''ComputeRegionTargetHttpProxy'', ''ComputeRegionUrlMap'', ''ComputeServiceAttachment'']"

text \<open>Substring test on class names.\<close>

fun starts_with :: "string \<Rightarrow> string \<Rightarrow> bool" where
  "starts_with [] ys = True"
| "starts_with (x # xs) [] = False"
| "starts_with (x # xs) (y # ys) = (x = y \<and> starts_with xs ys)"

primrec contains_str :: "string \<Rightarrow> string \<Rightarrow> bool" where
  "contains_str p [] = (p = [])"
| "contains_str p (c # cs) = (starts_with p (c # cs) \<or> contains_str p cs)"


subsection \<open>What an IPv4 CIDR literal denotes\<close>

text \<open>The program passes \<^verbatim>\<open>ipCidrRange\<close> as a string and never reads it. To state that
  ranges do not overlap, a literal \<^verbatim>\<open>a.b.c.d/len\<close> is read as the set of the
  \<open>2 ^ (32 - len)\<close> addresses that share its first \<open>len\<close> bits, addresses as numbers.\<close>

definition digit_of :: "char \<Rightarrow> nat option" where
  "digit_of = map_of
     [(CHR ''0'', 0), (CHR ''1'', 1), (CHR ''2'', 2), (CHR ''3'', 3), (CHR ''4'', 4),
      (CHR ''5'', 5), (CHR ''6'', 6), (CHR ''7'', 7), (CHR ''8'', 8), (CHR ''9'', 9)]"

primrec decimal :: "nat \<Rightarrow> string \<Rightarrow> nat option" where
  "decimal acc [] = Some acc"
| "decimal acc (c # cs) =
     (case digit_of c of None \<Rightarrow> None | Some d \<Rightarrow> decimal (10 * acc + d) cs)"

definition parse_nat :: "string \<Rightarrow> nat option" where
  "parse_nat s = (if s = [] then None else decimal 0 s)"

primrec split_on :: "char \<Rightarrow> string \<Rightarrow> string list" where
  "split_on sep [] = [[]]"
| "split_on sep (c # cs) =
     (if c = sep then [] # split_on sep cs
      else (case split_on sep cs of [] \<Rightarrow> [[c]] | p # ps \<Rightarrow> (c # p) # ps))"

definition parse_ipv4 :: "string \<Rightarrow> nat option" where
  "parse_ipv4 s =
     (case map parse_nat (split_on CHR ''.'' s) of
        [Some a, Some b, Some c, Some d] \<Rightarrow>
          if a \<le> 255 \<and> b \<le> 255 \<and> c \<le> 255 \<and> d \<le> 255
          then Some (((a * 256 + b) * 256 + c) * 256 + d) else None
      | _ \<Rightarrow> None)"

definition parse_cidr :: "string \<Rightarrow> (nat \<times> nat) option" where
  "parse_cidr s =
     (case split_on CHR ''/'' s of
        [a, l] \<Rightarrow>
          (case parse_ipv4 a of
             None \<Rightarrow> None
           | Some ip \<Rightarrow>
               (case parse_nat l of
                  None \<Rightarrow> None
                | Some len \<Rightarrow> if len \<le> 32 then Some (ip, len) else None))
      | _ \<Rightarrow> None)"

definition cidr_addresses :: "string \<Rightarrow> nat set option" where
  "cidr_addresses s =
     (case parse_cidr s of
        None \<Rightarrow> None
      | Some (ip, len) \<Rightarrow>
          (let size = 2 ^ (32 - len); base = ip - ip mod size
           in Some {base ..< base + size}))"

definition subnet_ranges :: "construct list \<Rightarrow> nat set option list" where
  "subnet_ranges g =
     map (\<lambda>c. case property c ''ipCidrRange'' of
                 Some (VStr s) \<Rightarrow> cidr_addresses s
               | _ \<Rightarrow> None)
       (by_class ''ComputeSubnetwork'' g)"

fun pairwise_disjoint :: "nat set list \<Rightarrow> bool" where
  "pairwise_disjoint [] = True"
| "pairwise_disjoint (A # As) = (list_all (\<lambda>B. A \<inter> B = {}) As \<and> pairwise_disjoint As)"

text \<open>The ranges of a list of subnetworks are all readable and pairwise disjoint.\<close>

definition disjoint_ranges :: "nat set option list \<Rightarrow> bool" where
  "disjoint_ranges rs = (list_all (\<lambda>r. r \<noteq> None) rs \<and> pairwise_disjoint (map the rs))"

text \<open>The \<^verbatim>\<open>synth\<close> calls of a log: the paths of the constructs synthesized, in order.\<close>

primrec synth_calls :: "event list \<Rightarrow> string list list" where
  "synth_calls [] = []"
| "synth_calls (e # es) =
     (case e of Declared c \<Rightarrow> synth_calls es | Synthesized p \<Rightarrow> p # synth_calls es)"


section \<open>The properties, as predicates on a resource graph\<close>

text \<open>The target topology. \<open>a\<close> is the project of the provider, the project every
  resource without a \<^verbatim>\<open>project\<close> of its own is declared in.
  \<^item> the classes of the declared resources, in order;
  \<^item> one network, \<^verbatim>\<open>network-a\<close>, and three subnetworks, each of that network;
  \<^item> one Cloud Run service, \<^verbatim>\<open>service\<close>;
  \<^item> the internal load balancer: one backend service with scheme \<^verbatim>\<open>INTERNAL_MANAGED\<close>,
    the url map in front of it, the HTTP proxy in front of the url map, and the first
    forwarding rule in front of the proxy (the second one is in front of the service
    attachment);
  \<^item> the resources that name a project of their own are the consumer address and the
    consumer forwarding rule, and that project is \<^verbatim>\<open>PROJECT-B\<close>, not \<open>a\<close>.\<close>

definition target_topology :: "string \<Rightarrow> construct list \<Rightarrow> bool" where
  "target_topology a g \<longleftrightarrow>
     map rclass g =
       [''GoogleProvider'', ''ComputeNetwork'', ''ComputeSubnetwork'', ''ComputeSubnetwork'',
        ''ComputeSubnetwork'', ''CloudRunV2Service'', ''CloudRunV2ServiceIamMember'',
        ''ComputeAddress'', ''ComputeRegionNetworkEndpointGroup'',
        ''ComputeRegionBackendService'', ''ComputeRegionUrlMap'',
        ''ComputeRegionTargetHttpProxy'', ''ComputeForwardingRule'',
        ''ComputeServiceAttachment'', ''ComputeAddress'', ''ComputeForwardingRule''] \<and>
     map cid (by_class ''ComputeNetwork'' g) = [''network-a''] \<and>
     map (\<lambda>c. property c ''network'') (by_class ''ComputeSubnetwork'' g) =
       [Some (VRef ''network-a'' ''name''), Some (VRef ''network-a'' ''name''),
        Some (VRef ''network-a'' ''name'')] \<and>
     map cid (by_class ''CloudRunV2Service'' g) = [''service''] \<and>
     map (\<lambda>c. property c ''loadBalancingScheme'') (by_class ''ComputeRegionBackendService'' g) =
       [Some (VStr ''INTERNAL_MANAGED'')] \<and>
     map (\<lambda>c. property c ''defaultService'') (by_class ''ComputeRegionUrlMap'' g) =
       map (\<lambda>c. Some (id_of c)) (by_class ''ComputeRegionBackendService'' g) \<and>
     map (\<lambda>c. property c ''urlMap'') (by_class ''ComputeRegionTargetHttpProxy'' g) =
       map (\<lambda>c. Some (id_of c)) (by_class ''ComputeRegionUrlMap'' g) \<and>
     map (\<lambda>c. property c ''target'') (by_class ''ComputeForwardingRule'' g) =
       map (\<lambda>c. Some (id_of c))
         (by_class ''ComputeRegionTargetHttpProxy'' g @ by_class ''ComputeServiceAttachment'' g) \<and>
     map (\<lambda>c. property c ''project'') (by_class ''GoogleProvider'' g) = [Some (VStr a)] \<and>
     a \<noteq> ''PROJECT-B'' \<and>
     map (\<lambda>c. (cid c, property c ''project''))
         (filter (\<lambda>c. rclass c \<noteq> ''GoogleProvider'' \<and> property c ''project'' \<noteq> None) g) =
       [(''consumer-ip'', Some (VStr ''PROJECT-B'')),
        (''forwarding-rule-psc'', Some (VStr ''PROJECT-B''))]"

text \<open>The private-service connection.
  \<^item> one service attachment; its target is the producer's forwarding rule (the one
    declared in the provider's project, with scheme \<^verbatim>\<open>INTERNAL_MANAGED\<close>);
  \<^item> its NAT subnets are exactly the subnetworks of purpose \<^verbatim>\<open>PRIVATE_SERVICE_CONNECT\<close>,
    of which there is one;
  \<^item> connections are accepted by hand, and the accept list has one entry: the network
    \<^verbatim>\<open>default\<close> of \<^verbatim>\<open>PROJECT-B\<close>, with limit 10;
  \<^item> the consumer forwarding rule is declared in \<^verbatim>\<open>PROJECT-B\<close> and its target is the
    service attachment;
  \<^item> no declared resource is of a class with \<^verbatim>\<open>Peering\<close> in its name.\<close>

definition psc_wiring :: "construct list \<Rightarrow> bool" where
  "psc_wiring g \<longleftrightarrow>
     map cid (by_class ''ComputeServiceAttachment'' g) = [''psc-service-attachment''] \<and>
     lookup g ''psc-service-attachment'' ''targetService'' = Some (VRef ''forwarding-rule'' ''id'') \<and>
     class_of g ''forwarding-rule'' = Some ''ComputeForwardingRule'' \<and>
     lookup g ''forwarding-rule'' ''project'' = None \<and>
     lookup g ''forwarding-rule'' ''loadBalancingScheme'' = Some (VStr ''INTERNAL_MANAGED'') \<and>
     lookup g ''psc-service-attachment'' ''natSubnets'' =
       Some (VList (map id_of
         (filter (\<lambda>c. property c ''purpose'' = Some (VStr ''PRIVATE_SERVICE_CONNECT''))
            (by_class ''ComputeSubnetwork'' g)))) \<and>
     length (filter (\<lambda>c. property c ''purpose'' = Some (VStr ''PRIVATE_SERVICE_CONNECT''))
        (by_class ''ComputeSubnetwork'' g)) = 1 \<and>
     lookup g ''psc-service-attachment'' ''connectionPreference'' = Some (VStr ''ACCEPT_MANUAL'') \<and>
     lookup g ''psc-service-attachment'' ''consumerAcceptLists'' =
       Some (VList [VObj
         [(''networkUrl'', VStr
            ''https://www.googleapis.com/compute/v1/projects/PROJECT-B/global/networks/default''),
          (''connectionLimit'', VNum 10)]]) \<and>
     class_of g ''forwarding-rule-psc'' = Some ''ComputeForwardingRule'' \<and>
     lookup g ''forwarding-rule-psc'' ''project'' = Some (VStr ''PROJECT-B'') \<and>
     lookup g ''forwarding-rule-psc'' ''target'' = Some (VRef ''psc-service-attachment'' ''id'') \<and>
     list_all (\<lambda>c. \<not> contains_str ''Peering'' (rclass c)) g"

text \<open>The chain of the load balancer, link by link, \<open>um\<close> being the construct id of the
  url map: each link is the \<^verbatim>\<open>id\<close> (for the last one the \<^verbatim>\<open>name\<close>) of a resource that is
  declared, and of the class the link asks for.\<close>

definition lb_chain :: "string \<Rightarrow> construct list \<Rightarrow> bool" where
  "lb_chain um g \<longleftrightarrow>
     class_of g ''forwarding-rule'' = Some ''ComputeForwardingRule'' \<and>
     lookup g ''forwarding-rule'' ''target'' = Some (VRef ''http-proxy'' ''id'') \<and>
     class_of g ''http-proxy'' = Some ''ComputeRegionTargetHttpProxy'' \<and>
     lookup g ''http-proxy'' ''urlMap'' = Some (VRef um ''id'') \<and>
     class_of g um = Some ''ComputeRegionUrlMap'' \<and>
     lookup g um ''defaultService'' = Some (VRef ''backend-service'' ''id'') \<and>
     class_of g ''backend-service'' = Some ''ComputeRegionBackendService'' \<and>
     lookup g ''backend-service'' ''backend'' =
       Some (VList [VObj [(''group'', VRef ''network-endpoint-group'' ''id'')]]) \<and>
     class_of g ''network-endpoint-group'' = Some ''ComputeRegionNetworkEndpointGroup'' \<and>
     lookup g ''network-endpoint-group'' ''cloudRun'' =
       Some (VObj [(''service'', VRef ''service'' ''name'')]) \<and>
     class_of g ''service'' = Some ''CloudRunV2Service'' \<and>
     ref_chain g [''forwarding-rule'', ''http-proxy'', um, ''backend-service'',
                  ''network-endpoint-group'', ''service'']"

text \<open>The values that carry network semantics, as the literals written.\<close>

definition opaque_values :: "construct list \<Rightarrow> bool" where
  "opaque_values g \<longleftrightarrow>
     map (\<lambda>c. property c ''purpose'') (by_class ''ComputeSubnetwork'' g) =
       [Some (VStr ''PRIVATE''), Some (VStr ''REGIONAL_MANAGED_PROXY''),
        Some (VStr ''PRIVATE_SERVICE_CONNECT'')] \<and>
     map (\<lambda>c. property c ''loadBalancingScheme'') (by_class ''ComputeRegionBackendService'' g) =
       [Some (VStr ''INTERNAL_MANAGED'')] \<and>
     class_of g ''forwarding-rule'' = Some ''ComputeForwardingRule'' \<and>
     lookup g ''forwarding-rule'' ''loadBalancingScheme'' = Some (VStr ''INTERNAL_MANAGED'') \<and>
     map (\<lambda>c. property c ''connectionPreference'') (by_class ''ComputeServiceAttachment'' g) =
       [Some (VStr ''ACCEPT_MANUAL'')]"

text \<open>The declarative interface: every resource is of an imported class, the construct
  ids are pairwise different, and the back-references are well declared.\<close>

definition declarative :: "construct list \<Rightarrow> bool" where
  "declarative g \<longleftrightarrow>
     list_all (\<lambda>c. rclass c \<in> set imported_classes) g \<and>
     distinct (map cid g) \<and>
     well_declared [] g"

text \<open>The Cloud Run service and the grant on it.\<close>

definition internal_ingress_public_invoker :: "construct list \<Rightarrow> bool" where
  "internal_ingress_public_invoker g \<longleftrightarrow>
     map cid (by_class ''CloudRunV2Service'' g) = [''service''] \<and>
     lookup g ''service'' ''ingress'' = Some (VStr ''INGRESS_TRAFFIC_INTERNAL_ONLY'') \<and>
     map (\<lambda>c. map (property c) [''name'', ''location'', ''role'', ''member''])
         (by_class ''CloudRunV2ServiceIamMember'' g) =
       [[Some (VRef ''service'' ''name''), Some (VStr ''europe-west2''),
         Some (VStr ''roles/run.invoker''), Some (VStr ''allUsers'')]]"

text \<open>The subnetworks: one network, one region, disjoint ranges; and the region of every
  resource that has a \<^verbatim>\<open>region\<close> or a \<^verbatim>\<open>location\<close> is the constant \<^verbatim>\<open>region\<close>.\<close>

definition subnet_layout :: "construct list \<Rightarrow> bool" where
  "subnet_layout g \<longleftrightarrow>
     class_of g ''network-a'' = Some ''ComputeNetwork'' \<and>
     map (\<lambda>c. property c ''network'') (by_class ''ComputeSubnetwork'' g) =
       [Some (VRef ''network-a'' ''name''), Some (VRef ''network-a'' ''name''),
        Some (VRef ''network-a'' ''name'')] \<and>
     map (\<lambda>c. property c ''region'') (by_class ''ComputeSubnetwork'' g) =
       [Some (VStr ''europe-west2''), Some (VStr ''europe-west2''),
        Some (VStr ''europe-west2'')] \<and>
     region = ''europe-west2'' \<and>
     list_all (\<lambda>c. property c ''region'' \<in> {None, Some (VStr region)} \<and>
                    property c ''location'' \<in> {None, Some (VStr region)}) g \<and>
     map (\<lambda>c. property c ''ipCidrRange'') (by_class ''ComputeSubnetwork'' g) =
       [Some (VStr ''10.0.0.0/24''), Some (VStr ''10.0.1.0/24''), Some (VStr ''10.0.2.0/24'')] \<and>
     subnet_ranges g =
       [Some {167772160 ..< 167772416}, Some {167772416 ..< 167772672},
        Some {167772672 ..< 167772928}] \<and>
     disjoint_ranges (subnet_ranges g)"

text \<open>The whole program, as the log \<open>w\<close> it leaves behind when started in the empty
  world with the stack constructor \<open>ctor\<close>: the root \<^verbatim>\<open>App\<close>, the stack \<^verbatim>\<open>lab\<close> in it, the
  resources of the stack, and then one \<^verbatim>\<open>synth\<close> of the root, which is the last event.\<close>

definition produces_and_hands_off ::
  "(construct \<Rightarrow> string \<Rightarrow> world \<Rightarrow> construct \<times> world) \<Rightarrow> world \<Rightarrow> bool" where
  "produces_and_hands_off ctor w \<longleftrightarrow>
     (let app = \<lparr>scope = [], cid = [], rclass = ''App'', config = []\<rparr>;
          lab = \<lparr>scope = path_of app, cid = ''lab'', rclass = ''StackA'', config = []\<rparr>
      in events w =
           [Declared app, Declared lab] @
           map Declared (stack_resources (ctor app ''lab'') (snd (App empty_world))) @
           [Synthesized (path_of app)] \<and>
         by_class ''App'' (declared (events w)) = [app] \<and>
         filter (\<lambda>c. scope c = path_of app) (declared (events w)) = [lab] \<and>
         length (declared (events w)) = 18 \<and>
         synth_calls (events w) = [path_of app] \<and>
         last (events w) = Synthesized (path_of app))"


section \<open>The checks of the library on the id of a stack\<close>












section \<open>Running the constructors\<close>

lemmas lib_defs = TerraformStack_def GoogleProvider_def ComputeNetwork_def ComputeSubnetwork_def
  CloudRunV2Service_def CloudRunV2ServiceIamMember_def ComputeAddress_def
  ComputeRegionNetworkEndpointGroup_def ComputeRegionBackendService_def ComputeRegionUrlMap_def
  ComputeRegionTargetHttpProxy_def ComputeForwardingRule_def ComputeServiceAttachment_def

lemma new_construct_bind:
  "(case new_construct cls sc i cfg w of (c, w') \<Rightarrow> k c w') =
     k \<lparr>scope = path_of sc, cid = i, rclass = cls, config = cfg\<rparr>
       (w\<lparr>events := events w @
          [Declared \<lparr>scope = path_of sc, cid = i, rclass = cls, config = cfg\<rparr>]\<rparr>)"
  by (simp add: new_construct_def Let_def)

lemma new_construct_declares:
  "declared (trace_of (new_construct cls sc i cfg) w) =
     [\<lparr>scope = path_of sc, cid = i, rclass = cls, config = cfg\<rparr>]"
  by (simp add: new_construct_def trace_of_def Let_def)

text \<open>The constructor returns the stack object it registered first.\<close>

lemma StackA_this:
  "fst (StackA sc i w) = \<lparr>scope = path_of sc, cid = i, rclass = ''StackA'', config = []\<rparr>"
  by (simp add: StackA_def lib_defs new_construct_bind)

lemma StackA_part_000_this:
  "fst (StackA_part_000 sc i w) =
     \<lparr>scope = path_of sc, cid = i, rclass = ''StackA'', config = []\<rparr>"
  by (simp add: StackA_part_000_def lib_defs new_construct_bind)

text \<open>The resource graph of each version, written out: sixteen declarations, all placed
  in the new stack, whatever the scope, the id and the world the constructor starts in.\<close>

lemma StackA_resources:
  "stack_resources (StackA sc i) w =
   [\<lparr>scope = path_of sc @ [i], cid = ''google'', rclass = ''GoogleProvider'',
     config =
      [(''project'', VStr ''project-a''),
       (''region'', VStr region)]\<rparr>,
    \<lparr>scope = path_of sc @ [i], cid = ''network-a'', rclass = ''ComputeNetwork'',
     config =
      [(''name'', VStr ''network-a''),
       (''autoCreateSubnetworks'', VBool False)]\<rparr>,
    \<lparr>scope = path_of sc @ [i], cid = ''app-subnet'', rclass = ''ComputeSubnetwork'',
     config =
      [(''name'', VStr ''app-subnet''),
       (''network'', VRef ''network-a'' ''name''),
       (''region'', VStr region),
       (''ipCidrRange'', VStr ''10.0.0.0/24''),
       (''purpose'', VStr ''PRIVATE'')]\<rparr>,
    \<lparr>scope = path_of sc @ [i], cid = ''proxy-subnet'', rclass = ''ComputeSubnetwork'',
     config =
      [(''name'', VStr ''proxy-subnet''),
       (''network'', VRef ''network-a'' ''name''),
       (''region'', VStr region),
       (''ipCidrRange'', VStr ''10.0.1.0/24''),
       (''purpose'', VStr ''REGIONAL_MANAGED_PROXY''),
       (''role'', VStr ''ACTIVE'')]\<rparr>,
    \<lparr>scope = path_of sc @ [i], cid = ''psc-subnet'', rclass = ''ComputeSubnetwork'',
     config =
      [(''name'', VStr ''psc-subnet''),
       (''network'', VRef ''network-a'' ''name''),
       (''region'', VStr region),
       (''ipCidrRange'', VStr ''10.0.2.0/24''),
       (''purpose'', VStr ''PRIVATE_SERVICE_CONNECT'')]\<rparr>,
    \<lparr>scope = path_of sc @ [i], cid = ''service'', rclass = ''CloudRunV2Service'',
     config =
      [(''name'', VStr ''service''),
       (''location'', VStr region),
       (''deletionProtection'', VBool False),
       (''ingress'', VStr ''INGRESS_TRAFFIC_INTERNAL_ONLY''),
       (''template'', VObj [(''containers'',
       VList [VObj [(''image'', VStr ''us-docker.pkg.dev/cloudrun/container/hello'')]])])]\<rparr>,
    \<lparr>scope = path_of sc @ [i], cid = ''invoker'', rclass = ''CloudRunV2ServiceIamMember'',
     config =
      [(''name'', VRef ''service'' ''name''),
       (''location'', VStr region),
       (''role'', VStr ''roles/run.invoker''),
       (''member'', VStr ''allUsers'')]\<rparr>,
    \<lparr>scope = path_of sc @ [i], cid = ''loadbalancer-address'', rclass = ''ComputeAddress'',
     config =
      [(''name'', VStr ''loadbalancer-address''),
       (''region'', VStr region),
       (''subnetwork'', VRef ''app-subnet'' ''name''),
       (''addressType'', VStr ''INTERNAL''),
       (''address'', VStr ''10.0.0.10''),
       (''ipVersion'', VStr ''IPV4'')]\<rparr>,
    \<lparr>scope = path_of sc @ [i], cid = ''network-endpoint-group'', rclass = ''ComputeRegionNetworkEndpointGroup'',
     config =
      [(''name'', VStr ''network-endpoint-group''),
       (''region'', VStr region),
       (''networkEndpointType'', VStr ''SERVERLESS''),
       (''cloudRun'', VObj [(''service'', VRef ''service'' ''name'')])]\<rparr>,
    \<lparr>scope = path_of sc @ [i], cid = ''backend-service'', rclass = ''ComputeRegionBackendService'',
     config =
      [(''name'', VStr ''backend-service''),
       (''loadBalancingScheme'', VStr ''INTERNAL_MANAGED''),
       (''region'', VStr region),
       (''protocol'', VStr ''HTTPS''),
       (''backend'', VList [VObj [(''group'', VRef ''network-endpoint-group'' ''id'')]])]\<rparr>,
    \<lparr>scope = path_of sc @ [i], cid = ''loadbalancer'', rclass = ''ComputeRegionUrlMap'',
     config =
      [(''name'', VStr ''loadbalancer''),
       (''region'', VStr region),
       (''defaultService'', VRef ''backend-service'' ''id'')]\<rparr>,
    \<lparr>scope = path_of sc @ [i], cid = ''http-proxy'', rclass = ''ComputeRegionTargetHttpProxy'',
     config =
      [(''name'', VStr ''http-proxy''),
       (''region'', VStr region),
       (''urlMap'', VRef ''loadbalancer'' ''id'')]\<rparr>,
    \<lparr>scope = path_of sc @ [i], cid = ''forwarding-rule'', rclass = ''ComputeForwardingRule'',
     config =
      [(''name'', VStr ''forwarding-rule''),
       (''region'', VStr region),
       (''ipProtocol'', VStr ''TCP''),
       (''loadBalancingScheme'', VStr ''INTERNAL_MANAGED''),
       (''portRange'', VStr ''80''),
       (''target'', VRef ''http-proxy'' ''id''),
       (''network'', VRef ''network-a'' ''name''),
       (''subnetwork'', VRef ''app-subnet'' ''name''),
       (''ipAddress'', VRef ''loadbalancer-address'' ''id''),
       (''networkTier'', VStr ''PREMIUM'')]\<rparr>,
    \<lparr>scope = path_of sc @ [i], cid = ''psc-service-attachment'', rclass = ''ComputeServiceAttachment'',
     config =
      [(''name'', VStr ''psc-service-attachment''),
       (''region'', VStr region),
       (''targetService'', VRef ''forwarding-rule'' ''id''),
       (''connectionPreference'', VStr ''ACCEPT_MANUAL''),
       (''natSubnets'', VList [VRef ''psc-subnet'' ''id'']),
       (''enableProxyProtocol'', VBool False),
       (''consumerAcceptLists'', VList [VObj
       [(''networkUrl'', VStr
       ''https://www.googleapis.com/compute/v1/projects/PROJECT-B/global/networks/default''),
       (''connectionLimit'', VNum 10)]])]\<rparr>,
    \<lparr>scope = path_of sc @ [i], cid = ''consumer-ip'', rclass = ''ComputeAddress'',
     config =
      [(''name'', VStr ''consumer-ip''),
       (''region'', VStr region),
       (''subnetwork'', VStr ''default''),
       (''addressType'', VStr ''INTERNAL''),
       (''address'', VStr ''10.154.0.5''),
       (''ipVersion'', VStr ''IPV4''),
       (''project'', VStr ''PROJECT-B'')]\<rparr>,
    \<lparr>scope = path_of sc @ [i], cid = ''forwarding-rule-psc'', rclass = ''ComputeForwardingRule'',
     config =
      [(''name'', VStr ''psc-forwarding-rule''),
       (''region'', VStr region),
       (''network'', VStr ''default''),
       (''subnetwork'', VStr ''default''),
       (''target'', VRef ''psc-service-attachment'' ''id''),
       (''project'', VStr ''PROJECT-B''),
       (''loadBalancingScheme'', VStr ''''),
       (''ipAddress'', VRef ''consumer-ip'' ''id'')]\<rparr>]"

  by (simp add: stack_resources_def StackA_this trace_of_def StackA_def lib_defs
      new_construct_bind name_of_def id_of_def path_of_def)

lemma StackA_part_000_resources:
  "stack_resources (StackA_part_000 sc i) w =
   [\<lparr>scope = path_of sc @ [i], cid = ''google'', rclass = ''GoogleProvider'',
     config =
      [(''project'', VStr ''PROJECT-A''),
       (''region'', VStr region)]\<rparr>,
    \<lparr>scope = path_of sc @ [i], cid = ''network-a'', rclass = ''ComputeNetwork'',
     config =
      [(''name'', VStr ''network-a''),
       (''autoCreateSubnetworks'', VBool False)]\<rparr>,
    \<lparr>scope = path_of sc @ [i], cid = ''subnet-app'', rclass = ''ComputeSubnetwork'',
     config =
      [(''name'', VStr ''subnet-app''),
       (''network'', VRef ''network-a'' ''name''),
       (''region'', VStr region),
       (''ipCidrRange'', VStr ''10.0.0.0/24''),
       (''purpose'', VStr ''PRIVATE'')]\<rparr>,
    \<lparr>scope = path_of sc @ [i], cid = ''subnet-proxy'', rclass = ''ComputeSubnetwork'',
     config =
      [(''name'', VStr ''subnet-proxy''),
       (''network'', VRef ''network-a'' ''name''),
       (''region'', VStr region),
       (''ipCidrRange'', VStr ''10.0.1.0/24''),
       (''purpose'', VStr ''REGIONAL_MANAGED_PROXY''),
       (''role'', VStr ''ACTIVE'')]\<rparr>,
    \<lparr>scope = path_of sc @ [i], cid = ''subnet-psc'', rclass = ''ComputeSubnetwork'',
     config =
      [(''name'', VStr ''subnet-psc''),
       (''network'', VRef ''network-a'' ''name''),
       (''region'', VStr region),
       (''ipCidrRange'', VStr ''10.0.2.0/24''),
       (''purpose'', VStr ''PRIVATE_SERVICE_CONNECT'')]\<rparr>,
    \<lparr>scope = path_of sc @ [i], cid = ''service'', rclass = ''CloudRunV2Service'',
     config =
      [(''name'', VStr ''service''),
       (''location'', VStr region),
       (''deletionProtection'', VBool False),
       (''ingress'', VStr ''INGRESS_TRAFFIC_INTERNAL_ONLY''),
       (''template'', VObj [(''containers'',
       VList [VObj [(''image'', VStr ''us-docker.pkg.dev/cloudrun/container/hello'')]])])]\<rparr>,
    \<lparr>scope = path_of sc @ [i], cid = ''invoker'', rclass = ''CloudRunV2ServiceIamMember'',
     config =
      [(''name'', VRef ''service'' ''name''),
       (''location'', VStr region),
       (''role'', VStr ''roles/run.invoker''),
       (''member'', VStr ''allUsers'')]\<rparr>,
    \<lparr>scope = path_of sc @ [i], cid = ''loadbalancer-address'', rclass = ''ComputeAddress'',
     config =
      [(''name'', VStr ''loadbalancer-address''),
       (''region'', VStr region),
       (''subnetwork'', VRef ''subnet-app'' ''name''),
       (''addressType'', VStr ''INTERNAL''),
       (''address'', VStr ''10.0.0.10''),
       (''ipVersion'', VStr ''IPV4'')]\<rparr>,
    \<lparr>scope = path_of sc @ [i], cid = ''network-endpoint-group'', rclass = ''ComputeRegionNetworkEndpointGroup'',
     config =
      [(''name'', VStr ''network-endpoint-group''),
       (''region'', VStr region),
       (''networkEndpointType'', VStr ''SERVERLESS''),
       (''cloudRun'', VObj [(''service'', VRef ''service'' ''name'')])]\<rparr>,
    \<lparr>scope = path_of sc @ [i], cid = ''backend-service'', rclass = ''ComputeRegionBackendService'',
     config =
      [(''name'', VStr ''backend-service''),
       (''loadBalancingScheme'', VStr ''INTERNAL_MANAGED''),
       (''region'', VStr region),
       (''protocol'', VStr ''HTTPS''),
       (''backend'', VList [VObj [(''group'', VRef ''network-endpoint-group'' ''id'')]])]\<rparr>,
    \<lparr>scope = path_of sc @ [i], cid = ''url-map'', rclass = ''ComputeRegionUrlMap'',
     config =
      [(''name'', VStr ''url-map''),
       (''region'', VStr region),
       (''defaultService'', VRef ''backend-service'' ''id'')]\<rparr>,
    \<lparr>scope = path_of sc @ [i], cid = ''http-proxy'', rclass = ''ComputeRegionTargetHttpProxy'',
     config =
      [(''name'', VStr ''http-proxy''),
       (''region'', VStr region),
       (''urlMap'', VRef ''url-map'' ''id'')]\<rparr>,
    \<lparr>scope = path_of sc @ [i], cid = ''forwarding-rule'', rclass = ''ComputeForwardingRule'',
     config =
      [(''name'', VStr ''forwarding-rule''),
       (''region'', VStr region),
       (''ipProtocol'', VStr ''TCP''),
       (''loadBalancingScheme'', VStr ''INTERNAL_MANAGED''),
       (''portRange'', VStr ''80''),
       (''target'', VRef ''http-proxy'' ''id''),
       (''network'', VRef ''network-a'' ''name''),
       (''subnetwork'', VRef ''subnet-app'' ''name''),
       (''networkTier'', VStr ''PREMIUM'')]\<rparr>,
    \<lparr>scope = path_of sc @ [i], cid = ''psc-service-attachment'', rclass = ''ComputeServiceAttachment'',
     config =
      [(''name'', VStr ''psc-service-attachment''),
       (''region'', VStr region),
       (''targetService'', VRef ''forwarding-rule'' ''id''),
       (''connectionPreference'', VStr ''ACCEPT_MANUAL''),
       (''natSubnets'', VList [VRef ''subnet-psc'' ''id'']),
       (''enableProxyProtocol'', VBool False),
       (''consumerAcceptLists'', VList [VObj
       [(''networkUrl'', VStr
       ''https://www.googleapis.com/compute/v1/projects/PROJECT-B/global/networks/default''),
       (''connectionLimit'', VNum 10)]])]\<rparr>,
    \<lparr>scope = path_of sc @ [i], cid = ''consumer-ip'', rclass = ''ComputeAddress'',
     config =
      [(''name'', VStr ''consumer-ip''),
       (''region'', VStr region),
       (''subnetwork'', VStr ''default''),
       (''addressType'', VStr ''INTERNAL''),
       (''address'', VStr ''10.154.0.5''),
       (''ipVersion'', VStr ''IPV4''),
       (''project'', VStr ''PROJECT-B'')]\<rparr>,
    \<lparr>scope = path_of sc @ [i], cid = ''forwarding-rule-psc'', rclass = ''ComputeForwardingRule'',
     config =
      [(''name'', VStr ''psc-forwarding-rule''),
       (''region'', VStr region),
       (''network'', VStr ''default''),
       (''subnetwork'', VStr ''default''),
       (''target'', VRef ''psc-service-attachment'' ''id''),
       (''project'', VStr ''PROJECT-B''),
       (''loadBalancingScheme'', VStr ''''),
       (''ipAddress'', VRef ''consumer-ip'' ''id'')]\<rparr>]"

  by (simp add: stack_resources_def StackA_part_000_this trace_of_def StackA_part_000_def lib_defs
      new_construct_bind name_of_def id_of_def path_of_def)

text \<open>The log after the constructor: the log before, the stack, its resources.\<close>

lemma StackA_events:
  "events (snd (StackA sc i w)) =
     events w @ Declared (fst (StackA sc i w)) # map Declared (stack_resources (StackA sc i) w)"
  unfolding StackA_resources StackA_this
  by (simp add: StackA_def lib_defs new_construct_bind name_of_def id_of_def path_of_def)

lemma StackA_part_000_events:
  "events (snd (StackA_part_000 sc i w)) =
     events w @ Declared (fst (StackA_part_000 sc i w)) #
       map Declared (stack_resources (StackA_part_000 sc i) w)"
  unfolding StackA_part_000_resources StackA_part_000_this
  by (simp add: StackA_part_000_def lib_defs new_construct_bind name_of_def id_of_def path_of_def)

lemma StackA_trace:
  "trace_of (StackA sc i) w =
     Declared (fst (StackA sc i w)) # map Declared (stack_resources (StackA sc i) w)"
  by (simp add: trace_of_def StackA_events)

lemma StackA_part_000_trace:
  "trace_of (StackA_part_000 sc i) w =
     Declared (fst (StackA_part_000 sc i w)) #
       map Declared (stack_resources (StackA_part_000 sc i) w)"
  by (simp add: trace_of_def StackA_part_000_events)

lemma StackA_resources_length: "length (stack_resources (StackA sc i) w) = 16"
  by (simp add: StackA_resources)

lemma StackA_part_000_resources_length: "length (stack_resources (StackA_part_000 sc i) w) = 16"
  by (simp add: StackA_part_000_resources)

lemma StackA_resources_scope:
  "filter (\<lambda>c. scope c = p) (stack_resources (StackA sc i) w) =
     (if p = path_of sc @ [i] then stack_resources (StackA sc i) w else [])"
  by (simp add: StackA_resources)

lemma StackA_part_000_resources_scope:
  "filter (\<lambda>c. scope c = p) (stack_resources (StackA_part_000 sc i) w) =
     (if p = path_of sc @ [i] then stack_resources (StackA_part_000 sc i) w else [])"
  by (simp add: StackA_part_000_resources)

lemma StackA_resources_no_App:
  "filter (\<lambda>c. rclass c = ''App'') (stack_resources (StackA sc i) w) = []"
  by (simp add: StackA_resources)

lemma StackA_part_000_resources_no_App:
  "filter (\<lambda>c. rclass c = ''App'') (stack_resources (StackA_part_000 sc i) w) = []"
  by (simp add: StackA_part_000_resources)

lemma declared_append: "declared (xs @ ys) = declared xs @ declared ys"
  by (induction xs) (simp_all split: event.split)

lemma declared_map_Declared: "declared (map Declared cs) = cs"
  by (induction cs) simp_all

lemma synth_calls_append: "synth_calls (xs @ ys) = synth_calls xs @ synth_calls ys"
  by (induction xs) (simp_all split: event.split)

lemma synth_calls_map_Declared: "synth_calls (map Declared cs) = []"
  by (induction cs) simp_all

text \<open>The log of the whole program.\<close>

lemma main_events:
  "events main =
     [Declared \<lparr>scope = [], cid = [], rclass = ''App'', config = []\<rparr>,
      Declared \<lparr>scope = [[]], cid = ''lab'', rclass = ''StackA'', config = []\<rparr>] @
     map Declared (stack_resources
        (StackA \<lparr>scope = [], cid = [], rclass = ''App'', config = []\<rparr> ''lab'')
        (snd (App empty_world))) @
     [Synthesized [[]]]"
  by (simp add: main_def App_def empty_world_def synth_def split_def StackA_events StackA_this
      path_of_def Let_def)

lemma main_part_000_events:
  "events main_part_000 =
     [Declared \<lparr>scope = [], cid = [], rclass = ''App'', config = []\<rparr>,
      Declared \<lparr>scope = [[]], cid = ''lab'', rclass = ''StackA'', config = []\<rparr>] @
     map Declared (stack_resources
        (StackA_part_000 \<lparr>scope = [], cid = [], rclass = ''App'', config = []\<rparr> ''lab'')
        (snd (App empty_world))) @
     [Synthesized [[]]]"
  by (simp add: main_part_000_def App_def empty_world_def synth_def split_def
      StackA_part_000_events StackA_part_000_this path_of_def Let_def)










section \<open>The claims\<close>

lemmas graph_defs = by_class_def property_def resource_def class_of_def lookup_def
  id_of_def name_of_def config_refs_def ref_targets_def

text \<open>
  C1. Constructing \<open>StackA\<close> declares the target topology: one network \<^verbatim>\<open>network-a\<close>,
  three subnetworks of it, the Cloud Run service \<^verbatim>\<open>service\<close>, an internal load balancer
  (a backend service with scheme \<^verbatim>\<open>INTERNAL_MANAGED\<close> behind a url map, a target HTTP
  proxy and a forwarding rule), a service attachment, and consumer-side resources
  declared in another project than the provider's. It holds for both versions of the
  file, for every scope, id and starting world.
\<close>

theorem StackA_declares_target_topology:
  "target_topology ''project-a'' (stack_resources (StackA sc i) w) \<and>
   target_topology ''PROJECT-A'' (stack_resources (StackA_part_000 sc i) w)"
proof
  show "target_topology ''project-a'' (stack_resources (StackA sc i) w)"
    by (simp add: target_topology_def StackA_resources graph_defs)
  show "target_topology ''PROJECT-A'' (stack_resources (StackA_part_000 sc i) w)"
    by (simp add: target_topology_def StackA_part_000_resources graph_defs)
qed

text \<open>
  C2. The private-service connection is wired without peering: the service attachment
  targets the producer's forwarding rule, its NAT subnet is the subnetwork of purpose
  \<^verbatim>\<open>PRIVATE_SERVICE_CONNECT\<close>, it accepts by hand the network \<^verbatim>\<open>default\<close> of
  \<^verbatim>\<open>PROJECT-B\<close> only (limit 10), the consumer forwarding rule is declared in
  \<^verbatim>\<open>PROJECT-B\<close> with the service attachment's id as its target, and no peering resource
  is declared in the stack.
\<close>

theorem StackA_psc_wiring:
  "psc_wiring (stack_resources (StackA sc i) w) \<and>
   psc_wiring (stack_resources (StackA_part_000 sc i) w)"
proof
  show "psc_wiring (stack_resources (StackA sc i) w)"
    by (simp add: psc_wiring_def StackA_resources graph_defs)
  show "psc_wiring (stack_resources (StackA_part_000 sc i) w)"
    by (simp add: psc_wiring_def StackA_part_000_resources graph_defs)
qed

text \<open>
  C3. Every back-reference of the resource graph resolves to a resource declared in the
  same stack, and the references from the forwarding rule lead link by link to the
  Cloud Run service: forwarding rule, target HTTP proxy, url map, backend service,
  network endpoint group, service. The url map is \<^verbatim>\<open>loadbalancer\<close> in
  \<^verbatim>\<open>src/main.ts\<close> and \<^verbatim>\<open>url-map\<close> in \<^verbatim>\<open>src/unnamed/part_000\<close>.
\<close>

theorem StackA_references_resolve:
  "refs_resolve (stack_resources (StackA sc i) w) \<and>
   lb_chain ''loadbalancer'' (stack_resources (StackA sc i) w) \<and>
   refs_resolve (stack_resources (StackA_part_000 sc i) w) \<and>
   lb_chain ''url-map'' (stack_resources (StackA_part_000 sc i) w)"
proof (intro conjI)
  show "refs_resolve (stack_resources (StackA sc i) w)"
    by (simp add: refs_resolve_def StackA_resources graph_defs)
  show "lb_chain ''loadbalancer'' (stack_resources (StackA sc i) w)"
    by (simp add: lb_chain_def points_to_def StackA_resources graph_defs)
  show "refs_resolve (stack_resources (StackA_part_000 sc i) w)"
    by (simp add: refs_resolve_def StackA_part_000_resources graph_defs)
  show "lb_chain ''url-map'' (stack_resources (StackA_part_000 sc i) w)"
    by (simp add: lb_chain_def points_to_def StackA_part_000_resources graph_defs)
qed

text \<open>
  C4. The values that carry network semantics reach the declared resources as the
  literals written: the three subnetwork purposes, the load-balancing scheme of the
  backend service and of the producer's forwarding rule, and the connection preference
  of the service attachment. Nothing stands between the program and the declaration:
  what a construction registers is the class, the id and the mapping it was given.
\<close>

theorem StackA_values_pass_through:
  "opaque_values (stack_resources (StackA sc i) w) \<and>
   opaque_values (stack_resources (StackA_part_000 sc i) w) \<and>
   config (fst (new_construct cls sc' n cfg w')) = cfg \<and>
   declared (trace_of (new_construct cls sc' n cfg) w') =
     [\<lparr>scope = path_of sc', cid = n, rclass = cls, config = cfg\<rparr>]"
proof (intro conjI)
  show "opaque_values (stack_resources (StackA sc i) w)"
    by (simp add: opaque_values_def StackA_resources graph_defs)
  show "opaque_values (stack_resources (StackA_part_000 sc i) w)"
    by (simp add: opaque_values_def StackA_part_000_resources graph_defs)
  show "config (fst (new_construct cls sc' n cfg w')) = cfg"
    by (simp add: new_construct_def Let_def)
  show "declared (trace_of (new_construct cls sc' n cfg) w') =
     [\<lparr>scope = path_of sc', cid = n, rclass = cls, config = cfg\<rparr>]"
    by (rule new_construct_declares)
qed




text \<open>
  C6. The program only produces the description and hands it off: it constructs one
  \<^verbatim>\<open>App\<close>, registers one stack in it (of class \<open>StackA\<close>, with id \<^verbatim>\<open>lab\<close>), and calls
  \<^verbatim>\<open>synth\<close> on the app once, as its last action. Its log holds these declarations and
  that call, and no other event.
\<close>

theorem main_produces_and_hands_off:
  "produces_and_hands_off StackA main \<and>
   produces_and_hands_off StackA_part_000 main_part_000"
proof
  show "produces_and_hands_off StackA main"
    by (simp add: produces_and_hands_off_def main_events declared_append declared_map_Declared
        synth_calls_append synth_calls_map_Declared by_class_def path_of_def StackA_resources_length
        StackA_resources_scope StackA_resources_no_App Let_def)
  show "produces_and_hands_off StackA_part_000 main_part_000"
    by (simp add: produces_and_hands_off_def main_part_000_events declared_append
        declared_map_Declared synth_calls_append synth_calls_map_Declared by_class_def path_of_def StackA_part_000_resources_length
        StackA_part_000_resources_scope StackA_part_000_resources_no_App Let_def)
qed

text \<open>
  C7. Every resource of the stack is used through the declarative interface only: it
  has a resource type (one of the imported classes), a construct id that no other
  resource of the stack has, and a mapping of property names to values. A value is a
  literal, a back-reference, or a list or object built from these; every back-reference
  reads the \<^verbatim>\<open>id\<close> or the \<^verbatim>\<open>name\<close> of a resource declared earlier in the same stack (the
  back-references are listed: holder, resource referred to, attribute read). The
  constructor does nothing else to a resource: what it appends to the log are
  declarations only, of the stack and of the resources placed in it.
\<close>

theorem StackA_declarative_interface:
  "declarative (stack_resources (StackA sc i) w) \<and>
   back_references (stack_resources (StackA sc i) w) =
     [(''app-subnet'', ''network-a'', ''name''),
      (''proxy-subnet'', ''network-a'', ''name''),
      (''psc-subnet'', ''network-a'', ''name''), (''invoker'', ''service'', ''name''),
      (''loadbalancer-address'', ''app-subnet'', ''name''),
      (''network-endpoint-group'', ''service'', ''name''),
      (''backend-service'', ''network-endpoint-group'', ''id''),
      (''loadbalancer'', ''backend-service'', ''id''),
      (''http-proxy'', ''loadbalancer'', ''id''),
      (''forwarding-rule'', ''http-proxy'', ''id''),
      (''forwarding-rule'', ''network-a'', ''name''),
      (''forwarding-rule'', ''app-subnet'', ''name''),
      (''forwarding-rule'', ''loadbalancer-address'', ''id''),
      (''psc-service-attachment'', ''forwarding-rule'', ''id''),
      (''psc-service-attachment'', ''psc-subnet'', ''id''),
      (''forwarding-rule-psc'', ''psc-service-attachment'', ''id''),
      (''forwarding-rule-psc'', ''consumer-ip'', ''id'')] \<and>
   declared (trace_of (StackA sc i) w) = fst (StackA sc i w) # stack_resources (StackA sc i) w \<and>
   synth_calls (trace_of (StackA sc i) w) = [] \<and>
   declarative (stack_resources (StackA_part_000 sc i) w) \<and>
   back_references (stack_resources (StackA_part_000 sc i) w) =
     [(''subnet-app'', ''network-a'', ''name''),
      (''subnet-proxy'', ''network-a'', ''name''),
      (''subnet-psc'', ''network-a'', ''name''), (''invoker'', ''service'', ''name''),
      (''loadbalancer-address'', ''subnet-app'', ''name''),
      (''network-endpoint-group'', ''service'', ''name''),
      (''backend-service'', ''network-endpoint-group'', ''id''),
      (''url-map'', ''backend-service'', ''id''), (''http-proxy'', ''url-map'', ''id''),
      (''forwarding-rule'', ''http-proxy'', ''id''),
      (''forwarding-rule'', ''network-a'', ''name''),
      (''forwarding-rule'', ''subnet-app'', ''name''),
      (''psc-service-attachment'', ''forwarding-rule'', ''id''),
      (''psc-service-attachment'', ''subnet-psc'', ''id''),
      (''forwarding-rule-psc'', ''psc-service-attachment'', ''id''),
      (''forwarding-rule-psc'', ''consumer-ip'', ''id'')] \<and>
   declared (trace_of (StackA_part_000 sc i) w) =
     fst (StackA_part_000 sc i w) # stack_resources (StackA_part_000 sc i) w \<and>
   synth_calls (trace_of (StackA_part_000 sc i) w) = []"
proof (intro conjI)
  show "back_references (stack_resources (StackA sc i) w) =
     [(''app-subnet'', ''network-a'', ''name''),
      (''proxy-subnet'', ''network-a'', ''name''),
      (''psc-subnet'', ''network-a'', ''name''), (''invoker'', ''service'', ''name''),
      (''loadbalancer-address'', ''app-subnet'', ''name''),
      (''network-endpoint-group'', ''service'', ''name''),
      (''backend-service'', ''network-endpoint-group'', ''id''),
      (''loadbalancer'', ''backend-service'', ''id''),
      (''http-proxy'', ''loadbalancer'', ''id''),
      (''forwarding-rule'', ''http-proxy'', ''id''),
      (''forwarding-rule'', ''network-a'', ''name''),
      (''forwarding-rule'', ''app-subnet'', ''name''),
      (''forwarding-rule'', ''loadbalancer-address'', ''id''),
      (''psc-service-attachment'', ''forwarding-rule'', ''id''),
      (''psc-service-attachment'', ''psc-subnet'', ''id''),
      (''forwarding-rule-psc'', ''psc-service-attachment'', ''id''),
      (''forwarding-rule-psc'', ''consumer-ip'', ''id'')]"
    by (simp add: back_references_def StackA_resources config_refs_def)
  show "back_references (stack_resources (StackA_part_000 sc i) w) =
     [(''subnet-app'', ''network-a'', ''name''),
      (''subnet-proxy'', ''network-a'', ''name''),
      (''subnet-psc'', ''network-a'', ''name''), (''invoker'', ''service'', ''name''),
      (''loadbalancer-address'', ''subnet-app'', ''name''),
      (''network-endpoint-group'', ''service'', ''name''),
      (''backend-service'', ''network-endpoint-group'', ''id''),
      (''url-map'', ''backend-service'', ''id''), (''http-proxy'', ''url-map'', ''id''),
      (''forwarding-rule'', ''http-proxy'', ''id''),
      (''forwarding-rule'', ''network-a'', ''name''),
      (''forwarding-rule'', ''subnet-app'', ''name''),
      (''psc-service-attachment'', ''forwarding-rule'', ''id''),
      (''psc-service-attachment'', ''subnet-psc'', ''id''),
      (''forwarding-rule-psc'', ''psc-service-attachment'', ''id''),
      (''forwarding-rule-psc'', ''consumer-ip'', ''id'')]"
    by (simp add: back_references_def StackA_part_000_resources config_refs_def)
  show "declarative (stack_resources (StackA sc i) w)"
    by (simp add: declarative_def imported_classes_def backref_ok_def StackA_resources
        config_refs_def)
  show "declarative (stack_resources (StackA_part_000 sc i) w)"
    by (simp add: declarative_def imported_classes_def backref_ok_def
        StackA_part_000_resources config_refs_def)
  show "declared (trace_of (StackA sc i) w) =
      fst (StackA sc i w) # stack_resources (StackA sc i) w"
    by (simp add: StackA_trace declared_map_Declared)
  show "declared (trace_of (StackA_part_000 sc i) w) =
      fst (StackA_part_000 sc i w) # stack_resources (StackA_part_000 sc i) w"
    by (simp add: StackA_part_000_trace declared_map_Declared)
  show "synth_calls (trace_of (StackA sc i) w) = []"
    by (simp add: StackA_trace synth_calls_map_Declared)
  show "synth_calls (trace_of (StackA_part_000 sc i) w) = []"
    by (simp add: StackA_part_000_trace synth_calls_map_Declared)
qed

text \<open>
  C8. The Cloud Run service is declared with ingress \<^verbatim>\<open>INGRESS_TRAFFIC_INTERNAL_ONLY\<close>,
  and the stack grants \<^verbatim>\<open>roles/run.invoker\<close> on that service (the grant names the
  service by a back-reference to its name, in the same location) to \<^verbatim>\<open>allUsers\<close>.
\<close>

theorem StackA_internal_ingress_public_invoker:
  "internal_ingress_public_invoker (stack_resources (StackA sc i) w) \<and>
   internal_ingress_public_invoker (stack_resources (StackA_part_000 sc i) w)"
proof
  show "internal_ingress_public_invoker (stack_resources (StackA sc i) w)"
    by (simp add: internal_ingress_public_invoker_def StackA_resources graph_defs region_def)
  show "internal_ingress_public_invoker (stack_resources (StackA_part_000 sc i) w)"
    by (simp add: internal_ingress_public_invoker_def StackA_part_000_resources graph_defs
        region_def)
qed

text \<open>
  C9. The three subnetworks reference the same network \<^verbatim>\<open>network-a\<close>, are declared in
  the same region \<^verbatim>\<open>europe-west2\<close> (the constant \<^verbatim>\<open>region\<close>, which is the region or
  location of every resource of the stack that has one), and their IPv4 ranges
  \<^verbatim>\<open>10.0.0.0/24\<close>, \<^verbatim>\<open>10.0.1.0/24\<close> and \<^verbatim>\<open>10.0.2.0/24\<close> are pairwise disjoint.
\<close>

theorem StackA_subnet_layout:
  "subnet_layout (stack_resources (StackA sc i) w) \<and>
   subnet_layout (stack_resources (StackA_part_000 sc i) w)"
proof
  show "subnet_layout (stack_resources (StackA sc i) w)"
    by (simp add: subnet_layout_def StackA_resources graph_defs region_def subnet_ranges_def
        disjoint_ranges_def cidr_addresses_def parse_cidr_def parse_ipv4_def parse_nat_def
        digit_of_def)
  show "subnet_layout (stack_resources (StackA_part_000 sc i) w)"
    by (simp add: subnet_layout_def StackA_part_000_resources graph_defs region_def
        subnet_ranges_def disjoint_ranges_def cidr_addresses_def parse_cidr_def parse_ipv4_def
        parse_nat_def digit_of_def)
qed

text \<open>
  C10. The two versions declare the same sequence of resource classes in the same
  order, and differ in construct ids and property values: the provider's project is
  \<^verbatim>\<open>project-a\<close> in \<^verbatim>\<open>src/main.ts\<close> and \<^verbatim>\<open>PROJECT-A\<close> in \<^verbatim>\<open>src/unnamed/part_000\<close>, and the
  producer's forwarding rule has an \<^verbatim>\<open>ipAddress\<close> in \<^verbatim>\<open>src/main.ts\<close> only. Position by
  position, seven of the sixteen declarations are the same in both versions.
\<close>

theorem StackA_versions_same_classes:
  "map rclass (stack_resources (StackA sc i) w) =
     map rclass (stack_resources (StackA_part_000 sc i) w) \<and>
   map rclass (stack_resources (StackA sc i) w) =
     [''GoogleProvider'', ''ComputeNetwork'', ''ComputeSubnetwork'', ''ComputeSubnetwork'',
      ''ComputeSubnetwork'', ''CloudRunV2Service'', ''CloudRunV2ServiceIamMember'',
      ''ComputeAddress'', ''ComputeRegionNetworkEndpointGroup'',
      ''ComputeRegionBackendService'', ''ComputeRegionUrlMap'',
      ''ComputeRegionTargetHttpProxy'', ''ComputeForwardingRule'',
      ''ComputeServiceAttachment'', ''ComputeAddress'', ''ComputeForwardingRule''] \<and>
   map cid (stack_resources (StackA sc i) w) =
     [''google'', ''network-a'', ''app-subnet'', ''proxy-subnet'', ''psc-subnet'', ''service'',
      ''invoker'', ''loadbalancer-address'', ''network-endpoint-group'', ''backend-service'',
      ''loadbalancer'', ''http-proxy'', ''forwarding-rule'', ''psc-service-attachment'',
      ''consumer-ip'', ''forwarding-rule-psc''] \<and>
   map cid (stack_resources (StackA_part_000 sc i) w) =
     [''google'', ''network-a'', ''subnet-app'', ''subnet-proxy'', ''subnet-psc'', ''service'',
      ''invoker'', ''loadbalancer-address'', ''network-endpoint-group'', ''backend-service'',
      ''url-map'', ''http-proxy'', ''forwarding-rule'', ''psc-service-attachment'',
      ''consumer-ip'', ''forwarding-rule-psc''] \<and>
   lookup (stack_resources (StackA sc i) w) ''google'' ''project'' = Some (VStr ''project-a'') \<and>
   lookup (stack_resources (StackA_part_000 sc i) w) ''google'' ''project'' =
     Some (VStr ''PROJECT-A'') \<and>
   lookup (stack_resources (StackA sc i) w) ''forwarding-rule'' ''ipAddress'' =
     Some (VRef ''loadbalancer-address'' ''id'') \<and>
   lookup (stack_resources (StackA_part_000 sc i) w) ''forwarding-rule'' ''ipAddress'' = None \<and>
   map (\<lambda>p. fst p = snd p)
       (zip (stack_resources (StackA sc i) w) (stack_resources (StackA_part_000 sc i) w)) =
     [False, True, False, False, False, True, True, False, True, True, False, False, False,
      False, True, True]"
proof -
  have classes: "map rclass (stack_resources (StackA sc i) w) =
     [''GoogleProvider'', ''ComputeNetwork'', ''ComputeSubnetwork'', ''ComputeSubnetwork'',
      ''ComputeSubnetwork'', ''CloudRunV2Service'', ''CloudRunV2ServiceIamMember'',
      ''ComputeAddress'', ''ComputeRegionNetworkEndpointGroup'',
      ''ComputeRegionBackendService'', ''ComputeRegionUrlMap'',
      ''ComputeRegionTargetHttpProxy'', ''ComputeForwardingRule'',
      ''ComputeServiceAttachment'', ''ComputeAddress'', ''ComputeForwardingRule'']"
    by (simp add: StackA_resources)
  have classes': "map rclass (stack_resources (StackA_part_000 sc i) w) =
     [''GoogleProvider'', ''ComputeNetwork'', ''ComputeSubnetwork'', ''ComputeSubnetwork'',
      ''ComputeSubnetwork'', ''CloudRunV2Service'', ''CloudRunV2ServiceIamMember'',
      ''ComputeAddress'', ''ComputeRegionNetworkEndpointGroup'',
      ''ComputeRegionBackendService'', ''ComputeRegionUrlMap'',
      ''ComputeRegionTargetHttpProxy'', ''ComputeForwardingRule'',
      ''ComputeServiceAttachment'', ''ComputeAddress'', ''ComputeForwardingRule'']"
    by (simp add: StackA_part_000_resources)
  have ids: "map cid (stack_resources (StackA sc i) w) =
     [''google'', ''network-a'', ''app-subnet'', ''proxy-subnet'', ''psc-subnet'', ''service'',
      ''invoker'', ''loadbalancer-address'', ''network-endpoint-group'', ''backend-service'',
      ''loadbalancer'', ''http-proxy'', ''forwarding-rule'', ''psc-service-attachment'',
      ''consumer-ip'', ''forwarding-rule-psc'']"
    by (simp add: StackA_resources)
  have ids': "map cid (stack_resources (StackA_part_000 sc i) w) =
     [''google'', ''network-a'', ''subnet-app'', ''subnet-proxy'', ''subnet-psc'', ''service'',
      ''invoker'', ''loadbalancer-address'', ''network-endpoint-group'', ''backend-service'',
      ''url-map'', ''http-proxy'', ''forwarding-rule'', ''psc-service-attachment'',
      ''consumer-ip'', ''forwarding-rule-psc'']"
    by (simp add: StackA_part_000_resources)
  have project: "lookup (stack_resources (StackA sc i) w) ''google'' ''project'' =
      Some (VStr ''project-a'')"
    by (simp add: StackA_resources graph_defs)
  have project': "lookup (stack_resources (StackA_part_000 sc i) w) ''google'' ''project'' =
      Some (VStr ''PROJECT-A'')"
    by (simp add: StackA_part_000_resources graph_defs)
  have ip: "lookup (stack_resources (StackA sc i) w) ''forwarding-rule'' ''ipAddress'' =
      Some (VRef ''loadbalancer-address'' ''id'')"
    by (simp add: StackA_resources graph_defs)
  have ip': "lookup (stack_resources (StackA_part_000 sc i) w) ''forwarding-rule''
      ''ipAddress'' = None"
    by (simp add: StackA_part_000_resources graph_defs)
  have same: "map (\<lambda>p. fst p = snd p)
       (zip (stack_resources (StackA sc i) w) (stack_resources (StackA_part_000 sc i) w)) =
     [False, True, False, False, False, True, True, False, True, True, False, False, False,
      False, True, True]"
    by (simp add: StackA_resources StackA_part_000_resources)
  from classes classes' ids ids' project project' ip ip' same show ?thesis
    by (simp only: simp_thms)
qed

end
